theory Spec2Isabelle
  imports Complex_Main "HOL-Library.Word"
begin

section \<open>JavaScript strings\<close>

text \<open>
  A JavaScript string is a sequence of UTF-16 code units: \<open>substring\<close>, \<open>slice\<close>,
  \<open>startsWith\<close>, \<open>split\<close> and the regular expressions of the source (none has the
  \<open>u\<close> flag) all count and compare code units. \<open>js\<close> embeds an ASCII literal.
\<close>

type_synonym cu = "16 word"
type_synonym jsstring = "cu list"

definition js :: "string \<Rightarrow> jsstring" where
  "js s = map of_char s"

text \<open>
  \<open>is_space\<close> is the set WhiteSpace + LineTerminator of ECMAScript: what \<open>trim\<close> strips
  and what \<open>\s\<close> matches. \<open>is_line_terminator\<close> is what \<open>.\<close> does not match.
\<close>

definition is_space :: "cu \<Rightarrow> bool" where
  "is_space c =
     (if c = 0x20 then True else if c = 0x0A then True else if c = 0x09 then True
      else if c = 0x0D then True else if c = 0x0B then True else if c = 0x0C then True
      else if c = 0xA0 then True else if c = 0x1680 then True
      else if 0x2000 \<le> c \<and> c \<le> 0x200A then True
      else if c = 0x2028 then True else if c = 0x2029 then True
      else if c = 0x202F then True else if c = 0x205F then True
      else if c = 0x3000 then True else c = 0xFEFF)"

definition is_line_terminator :: "cu \<Rightarrow> bool" where
  "is_line_terminator c =
     (if c = 0x0A then True else if c = 0x0D then True
      else if c = 0x2028 then True else c = 0x2029)"

definition is_digit :: "cu \<Rightarrow> bool" where
  "is_digit c = (0x30 \<le> c \<and> c \<le> 0x39)"

text \<open>ASCII case folding: the only folding that reaches an ASCII letter, both in a
  regular expression with the \<open>i\<close> flag and in SQLite's \<open>LIKE\<close>.\<close>

definition to_lower :: "cu \<Rightarrow> cu" where
  "to_lower c = (if 0x41 \<le> c \<and> c \<le> 0x5A then c + 0x20 else c)"

definition trim :: "jsstring \<Rightarrow> jsstring" where
  "trim s = rev (dropWhile is_space (rev (dropWhile is_space s)))"

text \<open>Truthiness of an optional string: \<open>undefined\<close> and \<open>""\<close> are falsy.\<close>

definition truthy :: "jsstring option \<Rightarrow> bool" where
  "truthy v = (case v of None \<Rightarrow> False | Some s \<Rightarrow> s \<noteq> [])"

text \<open>\<open>v || d\<close> for an optional string \<open>v\<close>.\<close>

definition or_else :: "jsstring option \<Rightarrow> jsstring \<Rightarrow> jsstring" where
  "or_else v d = (case v of None \<Rightarrow> d | Some s \<Rightarrow> if s = [] then d else s)"

text \<open>\<open>s.split(d)\<close> for a one-unit separator, and \<open>xs.join(sep)\<close>.\<close>

fun split :: "cu \<Rightarrow> jsstring \<Rightarrow> jsstring list" where
  "split d [] = [[]]"
| "split d (c # cs) =
     (if c = d then [] # split d cs
      else (case split d cs of [] \<Rightarrow> [[c]] | l # ls \<Rightarrow> (c # l) # ls))"

fun join :: "jsstring \<Rightarrow> jsstring list \<Rightarrow> jsstring" where
  "join sep [] = []"
| "join sep [x] = x"
| "join sep (x # y # ys) = x @ sep @ join sep (y # ys)"

definition startsWith :: "jsstring \<Rightarrow> cu \<Rightarrow> bool" where
  "startsWith s c = (case s of [] \<Rightarrow> False | x # _ \<Rightarrow> x = c)"

section \<open>JSON.stringify of an array of strings\<close>

text \<open>
  \<open>saveSnippet\<close> stores \<open>JSON.stringify(tags)\<close> in the \<open>tags\<close> column. QuoteJSONString
  escapes the quote, the backslash, the control characters and lone surrogates.
\<close>

definition hex_digit :: "nat \<Rightarrow> cu" where
  "hex_digit n = (if n < 10 then 0x30 + of_nat n else 0x61 + of_nat (n - 10))"

definition unicode_escape :: "cu \<Rightarrow> jsstring" where
  "unicode_escape c =
     [0x5C, 0x75, hex_digit (unat c div 4096 mod 16), hex_digit (unat c div 256 mod 16),
      hex_digit (unat c div 16 mod 16), hex_digit (unat c mod 16)]"

definition is_high_surrogate :: "cu \<Rightarrow> bool" where
  "is_high_surrogate c = (0xD800 \<le> c \<and> c \<le> 0xDBFF)"

definition is_low_surrogate :: "cu \<Rightarrow> bool" where
  "is_low_surrogate c = (0xDC00 \<le> c \<and> c \<le> 0xDFFF)"

fun quote_body :: "jsstring \<Rightarrow> jsstring" where
  "quote_body [] = []"
| "quote_body (c # cs) =
     (if c = 0x08 then [0x5C, 0x62] @ quote_body cs
      else if c = 0x09 then [0x5C, 0x74] @ quote_body cs
      else if c = 0x0A then [0x5C, 0x6E] @ quote_body cs
      else if c = 0x0C then [0x5C, 0x66] @ quote_body cs
      else if c = 0x0D then [0x5C, 0x72] @ quote_body cs
      else if c = 0x22 then [0x5C, 0x22] @ quote_body cs
      else if c = 0x5C then [0x5C, 0x5C] @ quote_body cs
      else if c < 0x20 then unicode_escape c @ quote_body cs
      else if is_high_surrogate c then
        (case cs of
           [] \<Rightarrow> unicode_escape c
         | d # ds \<Rightarrow>
             if is_low_surrogate d then c # d # quote_body ds
             else unicode_escape c @ quote_body cs)
      else if is_low_surrogate c then unicode_escape c @ quote_body cs
      else c # quote_body cs)"


definition JSON_quote :: "jsstring \<Rightarrow> jsstring" where
  "JSON_quote s = [0x22] @ quote_body s @ [0x22]"

definition JSON_stringify :: "jsstring list \<Rightarrow> jsstring" where
  "JSON_stringify xs = [0x5B] @ join [0x2C] (map JSON_quote xs) @ [0x5D]"

section \<open>SQLite's LIKE\<close>

text \<open>
  The default \<open>LIKE\<close> of SQLite (no \<open>ESCAPE\<close>, \<open>case_sensitive_like\<close> off): \<open>%\<close> in the
  pattern matches any run of characters, \<open>_\<close> any one character, and any other character
  matches itself, ASCII letters regardless of case. The first argument is the pattern.
  SQLite compares characters; for text of the Basic Multilingual Plane a character is one
  code unit.
\<close>

definition like_eq :: "cu \<Rightarrow> cu \<Rightarrow> bool" where
  "like_eq p c =
     (if p = c then True
      else if p < 0x80 then (if c < 0x80 then to_lower p = to_lower c else False)
      else False)"

fun sql_like :: "jsstring \<Rightarrow> jsstring \<Rightarrow> bool" where
  "sql_like [] s = (s = [])"
| "sql_like (p # ps) [] = (if p = 0x25 then sql_like ps [] else False)"
| "sql_like (p # ps) (c # cs) =
     (if p = 0x25 then (if sql_like ps (c # cs) then True else sql_like (p # ps) cs)
      else if p = 0x5F then sql_like ps cs
      else if like_eq p c then sql_like ps cs
      else False)"

text \<open>The template literal \<open>`%${s}%`\<close>.\<close>

definition contains_pattern :: "jsstring \<Rightarrow> jsstring" where
  "contains_pattern s = [0x25] @ s @ [0x25]"

section \<open>The regular expressions of the Error Detector\<close>

text \<open>
  The four signatures use literals, alternation, \<open>\s*\<close>, \<open>\d+\<close> and \<open>.*\<close>. \<open>rmatch r s\<close>
  lists, in the order a backtracking matcher tries them (greedy first), the rests of \<open>s\<close>
  after a match of \<open>r\<close> at its start. \<open>exec r s\<close> is \<open>s.match(r)\<close> for a regular
  expression without the \<open>g\<close> flag, reduced to \<open>match[0]\<close>, the only part the source
  reads: the leftmost position with a match, and the first match there.
\<close>

datatype charclass = Exactly cu | NoCase cu | Space | Dot | Digit

fun accepts :: "charclass \<Rightarrow> cu \<Rightarrow> bool" where
  "accepts (Exactly p) c = (p = c)"
| "accepts (NoCase p) c = (if c < 0x80 then to_lower p = to_lower c else False)"
| "accepts Space c = is_space c"
| "accepts Dot c = (\<not> is_line_terminator c)"
| "accepts Digit c = is_digit c"

datatype regex =
    Eps
  | Atom charclass
  | Star charclass
  | Seq regex regex
  | Alt regex regex

fun star_rests :: "charclass \<Rightarrow> jsstring \<Rightarrow> jsstring list" where
  "star_rests k [] = [[]]"
| "star_rests k (c # cs) = (if accepts k c then star_rests k cs @ [c # cs] else [c # cs])"

fun rmatch :: "regex \<Rightarrow> jsstring \<Rightarrow> jsstring list" where
  "rmatch Eps s = [s]"
| "rmatch (Atom k) s = (case s of [] \<Rightarrow> [] | c # cs \<Rightarrow> if accepts k c then [cs] else [])"
| "rmatch (Star k) s = star_rests k s"
| "rmatch (Seq a b) s = concat (map (rmatch b) (rmatch a s))"
| "rmatch (Alt a b) s = rmatch a s @ rmatch b s"

fun exec :: "regex \<Rightarrow> jsstring \<Rightarrow> jsstring option" where
  "exec r [] = (case rmatch r [] of [] \<Rightarrow> None | rest # _ \<Rightarrow> Some [])"
| "exec r (c # cs) =
     (case rmatch r (c # cs) of
        [] \<Rightarrow> exec r cs
      | rest # _ \<Rightarrow> Some (take (length (c # cs) - length rest) (c # cs)))"

definition lit :: "string \<Rightarrow> regex" where
  "lit s = foldr (\<lambda>c r. Seq (Atom (Exactly (of_char c))) r) s Eps"

definition lit_i :: "string \<Rightarrow> regex" where
  "lit_i s = foldr (\<lambda>c r. Seq (Atom (NoCase (of_char c))) r) s Eps"

fun seqs :: "regex list \<Rightarrow> regex" where
  "seqs [] = Eps"
| "seqs (r # rs) = Seq r (seqs rs)"

definition errorPatterns :: "regex list" where
  "errorPatterns =
     [seqs [lit_i ''error'', Star Space, lit '':'', Star Space, Star Dot],
      seqs [Alt (lit ''SyntaxError'') (Alt (lit ''TypeError'') (lit ''ReferenceError'')),
            lit '':'', Star Space, Star Dot],
      seqs [lit ''E'', Atom Digit, Star Digit, lit '':'', Star Space, Star Dot],
      seqs [Alt (lit_i ''exception'') (lit_i ''unhandled''), Star Space, Star Dot]]"

section \<open>Data model\<close>

text \<open>
  An instant is a number of milliseconds since the epoch. The store keeps instants as
  ISO-8601 text (\<open>toISOString\<close>) and compares that text; on the fixed-width rendering
  the order of the text is the order of the instants.
\<close>

type_synonym instant = int

record CodeSnippet =
  sn_id :: jsstring
  content :: jsstring
  sn_language :: jsstring
  tags :: "jsstring list"
  filePath :: "jsstring option"
  projectContext :: "jsstring option"
  timestamp :: instant
  sourceApp :: jsstring
  favorited :: bool

record ErrorPattern =
  ep_id :: jsstring
  errorText :: jsstring
  solution :: jsstring
  ep_language :: jsstring
  frequency :: int
  lastEncountered :: instant

record DeveloperContext =
  currentApp :: jsstring
  activeFile :: "jsstring option"
  projectRoot :: "jsstring option"
  lastActivity :: instant

text \<open>\<open>Partial<DeveloperContext>\<close>, the argument of \<open>updateDeveloperContext\<close>.\<close>

record ContextUpdate =
  upd_currentApp :: "jsstring option"
  upd_activeFile :: "jsstring option"
  upd_projectRoot :: "jsstring option"
  upd_lastActivity :: "instant option"


record SnippetQuery =
  q_language :: "jsstring option"
  q_searchTerm :: "jsstring option"
  q_limit :: "nat option"

record ErrorInput =
  err_errorText :: jsstring
  err_solution :: jsstring
  err_language :: jsstring

text \<open>A request to the completion API.\<close>

record Request =
  req_model :: jsstring
  req_system :: jsstring
  req_user :: jsstring
  req_temperature :: real
  req_max_tokens :: nat

section \<open>The world: store, collaborators and their history\<close>

text \<open>
  Every SQL statement, API request, clock reading, generated id and random score is an
  event. The collaborators are functions of the history of events so far, so that the
  same request can be answered differently at different times.
\<close>

datatype stmt =
    InsertSnippet CodeSnippet
  | SelectSnippets "jsstring option" "jsstring option" "nat option"
  | SelectErrorPattern jsstring jsstring
  | UpdateErrorPattern int instant jsstring jsstring
  | InsertErrorPattern ErrorPattern
  | SelectErrorSolutions jsstring jsstring
  | InsertContext DeveloperContext
  | SelectContext
  | DeleteSnippets instant
  | DeleteContext instant

datatype event =
    Db stmt
  | Api Request
  | Clock
  | Uuid
  | Embedding jsstring
  | Similarity jsstring

text \<open>What \<open>chat.completions.create\<close> does: it rejects, or it resolves with a response
  whose \<open>choices[0]?.message?.content\<close> is absent or a string.\<close>

datatype reply = Rejected | Content "jsstring option"

record env =
  db_fails :: "event list \<Rightarrow> bool"
  api_reply :: "event list \<Rightarrow> reply"
  clock :: "event list \<Rightarrow> instant"
  uuidv4 :: "event list \<Rightarrow> jsstring"
  random :: "event list \<Rightarrow> real"

text \<open>The tables list their rows in rowid order. \<open>context_seq\<close> is the AUTOINCREMENT
  counter of \<open>developer_context\<close>.\<close>

record world =
  snippets :: "CodeSnippet list"
  error_patterns :: "ErrorPattern list"
  developer_context :: "(nat \<times> DeveloperContext) list"
  context_seq :: nat
  trace :: "event list"

datatype error = StorageError | ApiError

type_synonym 'a io = "world \<Rightarrow> (error + 'a) \<times> world"

definition ret :: "'a \<Rightarrow> 'a io" where
  "ret x w = (Inr x, w)"

definition await :: "'a io \<Rightarrow> ('a \<Rightarrow> 'b io) \<Rightarrow> 'b io" where
  "await m f w = (case m w of (Inl e, w') \<Rightarrow> (Inl e, w') | (Inr x, w') \<Rightarrow> f x w')"

definition try_catch :: "'a io \<Rightarrow> (error \<Rightarrow> 'a io) \<Rightarrow> 'a io" where
  "try_catch m h w = (case m w of (Inl e, w') \<Rightarrow> h e w' | (Inr x, w') \<Rightarrow> (Inr x, w'))"

definition emit :: "event \<Rightarrow> world \<Rightarrow> world" where
  "emit e w = w\<lparr>trace := trace w @ [e]\<rparr>"

text \<open>One statement on the connection: it is recorded, and it either fails, leaving the
  tables as they are, or takes effect.\<close>

definition run_stmt :: "env \<Rightarrow> stmt \<Rightarrow> 'a io \<Rightarrow> 'a io" where
  "run_stmt E q effect w =
     (let w1 = emit (Db q) w in
      if db_fails E (trace w1) then (Inl StorageError, w1) else effect w1)"

definition new_Date :: "env \<Rightarrow> instant io" where
  "new_Date E w = (let w1 = emit Clock w in (Inr (clock E (trace w1)), w1))"

definition new_uuid :: "env \<Rightarrow> jsstring io" where
  "new_uuid E w = (let w1 = emit Uuid w in (Inr (uuidv4 E (trace w1)), w1))"

section \<open>The persisted store (code-storage.ts)\<close>



text \<open>The \<open>WHERE\<close> clause of \<open>getSnippets\<close>: a condition is added only for a truthy
  option; the search term is matched against the content and against the \<open>tags\<close> column,
  the JSON text of the tags.\<close>

definition snippet_where :: "SnippetQuery \<Rightarrow> CodeSnippet \<Rightarrow> bool" where
  "snippet_where options r =
     ((case q_language options of
         None \<Rightarrow> True
       | Some l \<Rightarrow> if l = [] then True else sn_language r = l) \<and>
      (case q_searchTerm options of
         None \<Rightarrow> True
       | Some t \<Rightarrow>
           if t = [] then True
           else if sql_like (contains_pattern t) (content r) then True
           else sql_like (contains_pattern t) (JSON_stringify (tags r))))"

definition sql_limit :: "nat option \<Rightarrow> 'a list \<Rightarrow> 'a list" where
  "sql_limit l xs = (case l of None \<Rightarrow> xs | Some n \<Rightarrow> if n = 0 then xs else take n xs)"

definition given :: "jsstring option \<Rightarrow> jsstring option" where
  "given v = (if truthy v then v else None)"

definition getSnippets :: "env \<Rightarrow> SnippetQuery \<Rightarrow> CodeSnippet list io" where
  "getSnippets E options =
     run_stmt E
       (SelectSnippets (given (q_language options))
          (map_option contains_pattern (given (q_searchTerm options)))
          (case q_limit options of None \<Rightarrow> None | Some n \<Rightarrow> if n = 0 then None else Some n))
       (\<lambda>w. (Inr (sql_limit (q_limit options)
                    (sort_key (\<lambda>r. - timestamp r)
                       (filter (snippet_where options) (snippets w)))), w))"

definition error_where :: "jsstring \<Rightarrow> jsstring \<Rightarrow> ErrorPattern \<Rightarrow> bool" where
  "error_where l p r = (if ep_language r = l then sql_like p (errorText r) else False)"

definition update_error_pattern ::
  "int \<Rightarrow> instant \<Rightarrow> jsstring \<Rightarrow> jsstring \<Rightarrow> ErrorPattern \<Rightarrow> ErrorPattern" where
  "update_error_pattern f t sol i r =
     (if ep_id r = i then r\<lparr>frequency := f, lastEncountered := t, solution := sol\<rparr> else r)"

definition insert_error_pattern :: "ErrorPattern \<Rightarrow> unit io" where
  "insert_error_pattern r w =
     (if ep_id r \<in> set (map ep_id (error_patterns w)) then (Inl StorageError, w)
      else (Inr (), w\<lparr>error_patterns := error_patterns w @ [r]\<rparr>))"

definition recordError :: "env \<Rightarrow> ErrorInput \<Rightarrow> ErrorPattern io" where
  "recordError E err =
     (let p = contains_pattern (take 50 (err_errorText err)) in
      await (run_stmt E (SelectErrorPattern (err_language err) p)
               (\<lambda>w. (Inr (find (error_where (err_language err) p) (error_patterns w)), w)))
        (\<lambda>found.
           case found of
             Some existing \<Rightarrow>
               await (new_Date E) (\<lambda>now.
               await (run_stmt E
                        (UpdateErrorPattern (frequency existing + 1) now (err_solution err)
                           (ep_id existing))
                        (\<lambda>w. (Inr (),
                           w\<lparr>error_patterns :=
                               map (update_error_pattern (frequency existing + 1) now
                                      (err_solution err) (ep_id existing))
                                 (error_patterns w)\<rparr>)))
                 (\<lambda>_. ret (existing\<lparr>frequency := frequency existing + 1\<rparr>)))
           | None \<Rightarrow>
               await (new_uuid E) (\<lambda>u.
               await (new_Date E) (\<lambda>now.
                 let newError =
                       \<lparr>ep_id = u, errorText = err_errorText err,
                        solution = err_solution err, ep_language = err_language err,
                        frequency = 1, lastEncountered = now\<rparr>
                 in await (run_stmt E (InsertErrorPattern newError)
                             (insert_error_pattern newError))
                      (\<lambda>_. ret newError)))))"

definition getErrorSolutions :: "env \<Rightarrow> jsstring \<Rightarrow> jsstring \<Rightarrow> ErrorPattern list io" where
  "getErrorSolutions E errText l =
     (let p = contains_pattern (take 100 errText) in
      run_stmt E (SelectErrorSolutions l p)
        (\<lambda>w. (Inr (take 5 (sort_key (\<lambda>r. - frequency r)
                              (filter (error_where l p) (error_patterns w)))), w)))"

definition updateDeveloperContext :: "env \<Rightarrow> ContextUpdate \<Rightarrow> unit io" where
  "updateDeveloperContext E c =
     await (new_Date E) (\<lambda>now.
       let row = \<lparr>currentApp = or_else (upd_currentApp c) (js ''unknown''),
                  activeFile = upd_activeFile c, projectRoot = upd_projectRoot c,
                  lastActivity = now\<rparr>
       in run_stmt E (InsertContext row)
            (\<lambda>w. (Inr (),
               w\<lparr>developer_context := developer_context w @ [(Suc (context_seq w), row)],
                  context_seq := Suc (context_seq w)\<rparr>)))"

definition getCurrentContext :: "env \<Rightarrow> (nat \<times> DeveloperContext) option io" where
  "getCurrentContext E =
     run_stmt E SelectContext
       (\<lambda>w. (Inr (case sort_key (\<lambda>r. - lastActivity (snd r)) (developer_context w) of
                     [] \<Rightarrow> None
                   | row # _ \<Rightarrow> Some row), w))"


section \<open>The suggestion pipeline (ai-helper.ts)\<close>

record AIConfig =
  apiKey :: jsstring
  cfg_model :: "jsstring option"
  cfg_temperature :: "real option"

record AIHelper =
  model :: jsstring
  temperature :: real

definition new_AIHelper :: "AIConfig \<Rightarrow> AIHelper" where
  "new_AIHelper config =
     \<lparr>model = or_else (cfg_model config) (js ''gpt-4-turbo''),
      temperature = (case cfg_temperature config of
                       None \<Rightarrow> 7 / 10
                     | Some t \<Rightarrow> if t = 0 then 7 / 10 else t)\<rparr>"

definition create_completion :: "env \<Rightarrow> Request \<Rightarrow> jsstring option io" where
  "create_completion E req w =
     (let w1 = emit (Api req) w in
      case api_reply E (trace w1) of
        Rejected \<Rightarrow> (Inl ApiError, w1)
      | Content c \<Rightarrow> (Inr c, w1))"

definition solution_prompt :: "jsstring \<Rightarrow> jsstring option \<Rightarrow> jsstring" where
  "solution_prompt err language =
     js ''Provide a concise solution for this '' @ or_else language (js ''programming'') @
     js '' error:\<newline>      Error: '' @ err @
     js ''\<newline>      \<newline>      Solution:''"

definition solution_request :: "AIHelper \<Rightarrow> jsstring \<Rightarrow> jsstring option \<Rightarrow> Request" where
  "solution_request H err language =
     \<lparr>req_model = model H,
      req_system = js ''You are an expert programming assistant. Provide clear, concise solutions to errors.'',
      req_user = solution_prompt err language,
      req_temperature = temperature H, req_max_tokens = 200\<rparr>"

definition generateErrorSolution ::
  "env \<Rightarrow> AIHelper \<Rightarrow> jsstring \<Rightarrow> jsstring option \<Rightarrow> jsstring option io" where
  "generateErrorSolution E H err language =
     try_catch
       (await (create_completion E (solution_request H err language))
          (\<lambda>c. ret (case c of
                      None \<Rightarrow> None
                    | Some s \<Rightarrow> if trim s = [] then None else Some (trim s))))
       (\<lambda>e. ret None)"

text \<open>The body of the loop of \<open>detectErrors\<close>, for one signature that matched:
  \<open>errText\<close> is \<open>match[0]\<close> and \<open>foundErrors\<close> the pairs pushed so far.\<close>

definition detectCandidate ::
  "env \<Rightarrow> AIHelper \<Rightarrow> jsstring option \<Rightarrow> jsstring \<Rightarrow> (jsstring \<times> jsstring) list \<Rightarrow>
   (jsstring \<times> jsstring) list io" where
  "detectCandidate E H language errText foundErrors =
     await (case language of
              None \<Rightarrow> ret []
            | Some l \<Rightarrow> if l = [] then ret [] else getErrorSolutions E errText l)
       (\<lambda>dbSolutions.
          if dbSolutions \<noteq> [] then
            ret (foundErrors @ map (\<lambda>sol. (errText, solution sol)) dbSolutions)
          else
            await (generateErrorSolution E H errText language)
              (\<lambda>aiSolution.
                 case aiSolution of
                   None \<Rightarrow> ret foundErrors
                 | Some s \<Rightarrow>
                     (case language of
                        None \<Rightarrow> ret (foundErrors @ [(errText, s)])
                      | Some l \<Rightarrow>
                          if l = [] then ret (foundErrors @ [(errText, s)])
                          else await (recordError E
                                        \<lparr>err_errorText = errText, err_solution = s,
                                         err_language = l\<rparr>)
                                 (\<lambda>_. ret (foundErrors @ [(errText, s)])))))"

fun detectLoop ::
  "env \<Rightarrow> AIHelper \<Rightarrow> jsstring \<Rightarrow> jsstring option \<Rightarrow> regex list \<Rightarrow>
   (jsstring \<times> jsstring) list \<Rightarrow> (jsstring \<times> jsstring) list io" where
  "detectLoop E H code language [] foundErrors = ret foundErrors"
| "detectLoop E H code language (pattern # patterns) foundErrors =
     (case exec pattern code of
        None \<Rightarrow> detectLoop E H code language patterns foundErrors
      | Some errText \<Rightarrow>
          await (detectCandidate E H language errText foundErrors)
            (detectLoop E H code language patterns))"

definition detectErrors ::
  "env \<Rightarrow> AIHelper \<Rightarrow> jsstring \<Rightarrow> jsstring option \<Rightarrow> (jsstring \<times> jsstring) list option io" where
  "detectErrors E H code language =
     await (detectLoop E H code language errorPatterns [])
       (\<lambda>foundErrors. ret (if foundErrors \<noteq> [] then Some foundErrors else None))"

text \<open>\<open>line.replace(/^[-\<bullet>]\s*/, '')\<close>; the bullet is U+2022, the hyphen U+002D.\<close>

definition is_marker :: "cu \<Rightarrow> bool" where
  "is_marker c = (if c = 0x2D then True else c = 0x2022)"

definition strip_marker :: "jsstring \<Rightarrow> jsstring" where
  "strip_marker line =
     (case line of [] \<Rightarrow> [] | c # cs \<Rightarrow> if is_marker c then dropWhile is_space cs else line)"

definition parseSuggestions :: "jsstring \<Rightarrow> jsstring list" where
  "parseSuggestions text =
     take 3
       (map (\<lambda>line. trim (strip_marker line))
          (filter (\<lambda>line. if startsWith line 0x2D then True else startsWith line 0x2022)
             (split 0x0A text)))"

definition suggestion_prompt ::
  "jsstring \<Rightarrow> jsstring option \<Rightarrow> jsstring option \<Rightarrow> CodeSnippet list \<Rightarrow> jsstring" where
  "suggestion_prompt code path language found =
     js ''Based on this code context:\<newline>      File: '' @ or_else path (js ''unknown'') @
     js ''\<newline>      Language: '' @ or_else language (js ''unknown'') @
     js ''\<newline>      Current code:\<newline>      '' @ code @
     js ''\<newline>      \<newline>      '' @
     (if found \<noteq> [] then
        js ''Relevant snippets:\<newline>'' @ join (js ''\<newline>---\<newline>'') (map content found)
      else []) @
     js ''\<newline>      \<newline>      Provide 3 concise suggestions to improve or continue this code. Format as bullet points.''"

definition suggestion_request ::
  "AIHelper \<Rightarrow> jsstring \<Rightarrow> jsstring option \<Rightarrow> jsstring option \<Rightarrow> CodeSnippet list \<Rightarrow> Request" where
  "suggestion_request H code path language found =
     \<lparr>req_model = model H,
      req_system = js ''You are a pair programming assistant. Provide helpful, concise coding suggestions.'',
      req_user = suggestion_prompt code path language found,
      req_temperature = temperature H, req_max_tokens = 300\<rparr>"

definition generateSuggestions ::
  "env \<Rightarrow> AIHelper \<Rightarrow> jsstring \<Rightarrow> jsstring option \<Rightarrow> jsstring option \<Rightarrow> jsstring list io" where
  "generateSuggestions E H code path language =
     try_catch
       (await (getCurrentContext E) (\<lambda>currentContext.
        await (getSnippets E \<lparr>q_language = language, q_searchTerm = None, q_limit = Some 3\<rparr>)
          (\<lambda>found.
        await (create_completion E (suggestion_request H code path language found))
          (\<lambda>c. case c of
                  None \<Rightarrow> ret []
                | Some text \<Rightarrow> if text = [] then ret [] else ret (parseSuggestions text)))))
       (\<lambda>e. ret [])"

text \<open>The placeholders of the semantic search: the embedding is the empty vector and the
  similarity is \<open>Math.random()\<close>.\<close>

definition generateEmbedding :: "env \<Rightarrow> jsstring \<Rightarrow> real list io" where
  "generateEmbedding E text w = (Inr [], emit (Embedding text) w)"

definition calculateSimilarity :: "env \<Rightarrow> real list \<Rightarrow> jsstring \<Rightarrow> real io" where
  "calculateSimilarity E embedding text w =
     (let w1 = emit (Similarity text) w in (Inr (random E (trace w1)), w1))"

fun score_all :: "env \<Rightarrow> real list \<Rightarrow> CodeSnippet list \<Rightarrow> (CodeSnippet \<times> real) list io" where
  "score_all E embedding [] = ret []"
| "score_all E embedding (snippet # rest) =
     await (calculateSimilarity E embedding (content snippet)) (\<lambda>score.
     await (score_all E embedding rest) (\<lambda>scored. ret ((snippet, score) # scored)))"

definition findRelevantSnippets ::
  "env \<Rightarrow> AIHelper \<Rightarrow> jsstring \<Rightarrow> jsstring option \<Rightarrow> CodeSnippet list option io" where
  "findRelevantSnippets E H code language =
     (if trim code = [] then ret None
      else
        try_catch
          (await (getSnippets E
                    \<lparr>q_language = language, q_searchTerm = Some (take 50 (trim code)),
                     q_limit = Some 2\<rparr>)
             (\<lambda>exactMatches.
                if exactMatches \<noteq> [] then ret (Some exactMatches)
                else
                  await (generateEmbedding E code) (\<lambda>embedding.
                  await (getSnippets E
                           \<lparr>q_language = language, q_searchTerm = None, q_limit = None\<rparr>)
                    (\<lambda>allSnippets.
                  await (score_all E embedding allSnippets) (\<lambda>scoredSnippets.
                    ret (Some (map fst
                                 (take 2 (sort_key (\<lambda>item. - snd item) scoredSnippets)))))))))
          (\<lambda>e. ret None))"

record PipelineContext =
  ctx_filePath :: "jsstring option"
  ctx_language :: "jsstring option"
  ctx_sourceApp :: jsstring

record PipelineResult =
  res_suggestions :: "jsstring list"
  res_errors :: "(jsstring \<times> jsstring) list option"
  res_snippets :: "CodeSnippet list option"

text \<open>
  \<open>processCodeContent\<close> awaits the context update and then starts the three analyses
  under \<open>Promise.all\<close>. No analysis writes a table that another reads, so the model
  runs them one after the other, in the order the source starts them; the first
  rejection is the rejection of the whole.
\<close>

definition processCodeContent ::
  "env \<Rightarrow> AIHelper \<Rightarrow> jsstring \<Rightarrow> PipelineContext \<Rightarrow> PipelineResult io" where
  "processCodeContent E H text c =
     await (new_Date E) (\<lambda>t.
     await (updateDeveloperContext E
              \<lparr>upd_currentApp = Some (ctx_sourceApp c), upd_activeFile = ctx_filePath c,
               upd_projectRoot = None, upd_lastActivity = Some t\<rparr>) (\<lambda>_.
     await (detectErrors E H text (ctx_language c)) (\<lambda>errorAnalysis.
     await (generateSuggestions E H text (ctx_filePath c) (ctx_language c))
       (\<lambda>suggestionAnalysis.
     await (findRelevantSnippets E H text (ctx_language c)) (\<lambda>snippetMatch.
       ret \<lparr>res_suggestions = suggestionAnalysis, res_errors = errorAnalysis,
            res_snippets = snippetMatch\<rparr>)))))"

section \<open>Example collaborators and stores\<close>

text \<open>A collaborator whose storage never fails and whose API always gives the same reply;
  its clock advances with every event and every id it generates is new.\<close>

definition quiet :: "reply \<Rightarrow> env" where
  "quiet r =
     \<lparr>db_fails = (\<lambda>h. False), api_reply = (\<lambda>h. r), clock = (\<lambda>h. int (length h)),
      uuidv4 = (\<lambda>h. js ''id-'' @ replicate (length h) 0x2A), random = (\<lambda>h. 1 / 2)\<rparr>"

definition empty_world :: world where
  "empty_world =
     \<lparr>snippets = [], error_patterns = [], developer_context = [], context_seq = 0, trace = []\<rparr>"

text \<open>The helper of \<open>route.ts\<close>: \<open>new AIHelper({apiKey: ""})\<close>.\<close>

definition helper :: AIHelper where
  "helper = new_AIHelper \<lparr>apiKey = [], cfg_model = None, cfg_temperature = None\<rparr>"

definition known_error :: ErrorPattern where
  "known_error =
     \<lparr>ep_id = js ''e1'', errorText = js ''TypeError: x is not a function'',
      solution = js ''check the import'', ep_language = js ''js'', frequency = 1,
      lastEncountered = 0\<rparr>"

definition frequent_error :: ErrorPattern where
  "frequent_error =
     \<lparr>ep_id = js ''e2'', errorText = js ''Uncaught TypeError: x is not a function'',
      solution = js ''call the default export'', ep_language = js ''js'', frequency = 4,
      lastEncountered = 0\<rparr>"

definition observed_again :: ErrorInput where
  "observed_again =
     \<lparr>err_errorText = js ''TypeError: x is not a function'',
      err_solution = js ''bind the method'', err_language = js ''js''\<rparr>"



definition old_snippet :: CodeSnippet where
  "old_snippet =
     \<lparr>sn_id = js ''s1'', content = js ''const total = items.reduce(add, 0)'',
      sn_language = js ''js'', tags = [js ''reduce'', js ''sum''], filePath = None,
      projectContext = None, timestamp = 0, sourceApp = js ''code'', favorited = False\<rparr>"


text \<open>A collaborator whose first \<open>n\<close> statements succeed and whose later ones fail.\<close>

fun is_db :: "event \<Rightarrow> bool" where
  "is_db (Db q) = True"
| "is_db e = False"

definition failing_after :: "nat \<Rightarrow> env" where
  "failing_after n =
     (quiet (Content (Some (js ''- add a guard''))))
       \<lparr>db_fails := (\<lambda>h. n < length (filter is_db h))\<rparr>"

text \<open>A collaborator whose storage fails on the lookup of cached solutions only.\<close>

fun is_cache_lookup :: "event \<Rightarrow> bool" where
  "is_cache_lookup (Db (SelectErrorSolutions l p)) = True"
| "is_cache_lookup e = False"

definition cache_down :: env where
  "cache_down =
     (quiet Rejected)
       \<lparr>db_fails := (\<lambda>h. case rev h of [] \<Rightarrow> False | e # _ \<Rightarrow> is_cache_lookup e)\<rparr>"

definition js_descriptor :: PipelineContext where
  "js_descriptor = \<lparr>ctx_filePath = None, ctx_language = Some (js ''js''), ctx_sourceApp = js ''code''\<rparr>"

text \<open>Two compiler errors that differ after their 50th character, the first of them on
  record. The second is matched by the third signature only.\<close>

definition type_i64 :: ErrorPattern where
  "type_i64 =
     \<lparr>ep_id = js ''e7'',
      errorText = js ''E0308: mismatched types: expected u32 but the value is of type i64'',
      solution = js ''convert with try_into'', ep_language = js ''rust'',
      frequency = 1, lastEncountered = 0\<rparr>"

definition type_u8 :: jsstring where
  "type_u8 = js ''E0308: mismatched types: expected u32 but the value is of type u8''"

section \<open>Facts about LIKE and the store\<close>

lemma sql_like_any: "sql_like [0x25] s"
  by (induction s) auto

lemma sql_like_skip: "sql_like q s \<Longrightarrow> sql_like (0x25 # q) (pre @ s)"
proof (induction pre)
  case Nil
  then show ?case by (cases s) auto
next
  case (Cons c pre)
  then show ?case by simp
qed

lemma like_eq_refl: "like_eq c c"
  by (simp add: like_eq_def)

text \<open>A text matches any of its prefixes taken as a pattern, wildcards included.\<close>

lemma sql_like_prefix: "sql_like (p @ [0x25]) (p @ rest)"
proof (induction p)
  case Nil
  show ?case using sql_like_any by simp
next
  case (Cons c p)
  show ?case
  proof (cases "c = 0x25")
    case True
    have "sql_like (0x25 # (p @ [0x25])) ([c] @ (p @ rest))"
      using Cons.IH by (rule sql_like_skip)
    then show ?thesis using True by simp
  next
    case False
    then show ?thesis using Cons.IH by (simp add: like_eq_refl)
  qed
qed

lemma sql_like_contains_prefix: "sql_like (contains_pattern p) (p @ rest)"
  using sql_like_skip [where pre = "[]" and q = "p @ [0x25]" and s = "p @ rest"] sql_like_prefix
  by (simp add: contains_pattern_def)

lemma sql_like_take: "sql_like (contains_pattern (take n t)) t"
  using sql_like_contains_prefix [of "take n t" "drop n t"] by simp

lemma sorted_desc_frequency:
  "sorted_wrt (\<lambda>a b. frequency b \<le> frequency a) (sort_key (\<lambda>r. - frequency r) xs)"
proof -
  have "sorted (map (\<lambda>r. - frequency r) (sort_key (\<lambda>r. - frequency r) xs))"
    by (rule sorted_sort_key)
  then show ?thesis by (simp add: sorted_map)
qed

lemma getErrorSolutions_key:
  "getErrorSolutions E errText l = getErrorSolutions E (take 100 errText) l"
  by (simp add: getErrorSolutions_def)

lemma recordError_existing:
  assumes ok: "\<forall>h. \<not> db_fails E h"
    and found: "find (error_where (err_language err) (contains_pattern (take 50 (err_errorText err))))
                  (error_patterns w) = Some existing"
  shows "recordError E err w =
           (Inr (existing\<lparr>frequency := frequency existing + 1\<rparr>),
            w\<lparr>trace := trace w @
                  [Db (SelectErrorPattern (err_language err)
                         (contains_pattern (take 50 (err_errorText err)))),
                   Clock,
                   Db (UpdateErrorPattern (frequency existing + 1)
                         (clock E (trace w @
                            [Db (SelectErrorPattern (err_language err)
                                   (contains_pattern (take 50 (err_errorText err)))), Clock]))
                         (err_solution err) (ep_id existing))],
              error_patterns :=
                map (update_error_pattern (frequency existing + 1)
                       (clock E (trace w @
                          [Db (SelectErrorPattern (err_language err)
                                 (contains_pattern (take 50 (err_errorText err)))), Clock]))
                       (err_solution err) (ep_id existing))
                  (error_patterns w)\<rparr>)"
  using ok found
  by (simp add: recordError_def await_def run_stmt_def emit_def new_Date_def ret_def Let_def)

lemma recordError_fresh:
  assumes ok: "\<forall>h. \<not> db_fails E h"
    and none: "find (error_where (err_language err) (contains_pattern (take 50 (err_errorText err))))
                  (error_patterns w) = None"
    and fresh: "uuidv4 E (trace w @
                  [Db (SelectErrorPattern (err_language err)
                         (contains_pattern (take 50 (err_errorText err)))), Uuid])
                \<notin> set (map ep_id (error_patterns w))"
  shows "recordError E err w =
           (let sel = Db (SelectErrorPattern (err_language err)
                         (contains_pattern (take 50 (err_errorText err))));
                newError = \<lparr>ep_id = uuidv4 E (trace w @ [sel, Uuid]),
                        errorText = err_errorText err, solution = err_solution err,
                        ep_language = err_language err, frequency = 1,
                        lastEncountered = clock E (trace w @ [sel, Uuid, Clock])\<rparr>
            in (Inr newError,
                w\<lparr>trace := trace w @ [sel, Uuid, Clock, Db (InsertErrorPattern newError)],
                  error_patterns := error_patterns w @ [newError]\<rparr>))"
  using ok none fresh
  by (simp add: recordError_def await_def run_stmt_def emit_def new_Date_def new_uuid_def
      ret_def insert_error_pattern_def Let_def)


text \<open>\<open>trim\<close> keeps the first character that is not white space.\<close>

lemma trim_dropWhile: "trim (dropWhile is_space s) = trim s"
  by (simp add: trim_def dropWhile_idem)

lemma rev_dropWhile_rev_Cons:
  assumes "\<not> P a"
  shows "rev (dropWhile P (rev (a # ys))) = a # rev (dropWhile P (rev ys))"
  using assms by (simp add: dropWhile_append)

lemma trim_head:
  "(case trim s of [] \<Rightarrow> None | c # _ \<Rightarrow> Some c) =
   (case dropWhile is_space s of [] \<Rightarrow> None | c # _ \<Rightarrow> Some c)"
proof (cases "dropWhile is_space s")
  case Nil
  have "trim s = []" unfolding trim_def Nil by simp
  then show ?thesis unfolding Nil by simp
next
  case (Cons a ys)
  have "\<not> is_space (hd (dropWhile is_space s))"
    by (rule hd_dropWhile) (simp add: Cons)
  then have "\<not> is_space a" unfolding Cons by simp
  then have "trim s = a # rev (dropWhile is_space (rev ys))"
    unfolding trim_def Cons by (rule rev_dropWhile_rev_Cons)
  then show ?thesis unfolding Cons by simp
qed

lemma startsWith_head:
  "startsWith s c = ((case s of [] \<Rightarrow> None | x # _ \<Rightarrow> Some x) = Some c)"
  by (cases s) (simp_all add: startsWith_def)

lemma startsWith_trim: "startsWith (trim s) c = startsWith (dropWhile is_space s) c"
  by (simp only: startsWith_head trim_head)

lemma strip_bullet_line:
  assumes "(if startsWith line 0x2D then True else startsWith line 0x2022)"
  shows "trim (strip_marker line) = trim (tl line)"
  using assms
  by (cases line)
    (auto simp: startsWith_def strip_marker_def is_marker_def trim_dropWhile split: if_splits)

lemma given_None: "given None = None"
  by (simp add: given_def truthy_def)

text \<open>Blank input: no signature matches and the Snippet Matcher gives its "no result".\<close>

lemma exec_empty: "list_all (\<lambda>r. exec r [] = None) errorPatterns"
  by (simp add: errorPatterns_def lit_def lit_i_def)

lemma detectErrors_empty: "detectErrors E H [] language = ret None"
  using exec_empty
  by (simp add: detectErrors_def errorPatterns_def await_def ret_def fun_eq_iff)

lemma findRelevantSnippets_blank:
  "trim code = [] \<Longrightarrow> findRelevantSnippets E H code language = ret None"
  by (simp add: findRelevantSnippets_def)

lemma parseSuggestions_length: "length (parseSuggestions text) \<le> 3"
  by (simp add: parseSuggestions_def)

lemma generateSuggestions_result:
  "\<exists>sugg w'. generateSuggestions E H code path language w = (Inr sugg, w') \<and>
     length sugg \<le> 3 \<and>
     (sugg = [] \<or> (\<exists>h text. api_reply E h = Content (Some text) \<and> sugg = parseSuggestions text))"
  by (auto simp: generateSuggestions_def try_catch_def await_def ret_def getCurrentContext_def
      getSnippets_def run_stmt_def emit_def create_completion_def Let_def sql_limit_def
      parseSuggestions_length
      split: reply.splits option.splits)

lemma exec_error_x:
  "map (\<lambda>r. exec r (js ''error: x is undefined'')) errorPatterns =
     [Some (js ''error: x is undefined''), None, None, None]"
  by (simp add: errorPatterns_def lit_def lit_i_def js_def to_lower_def is_space_def
      is_line_terminator_def is_digit_def)

text \<open>The loop body of the Error Detector up to the write-back, on a cache miss that the
  API answers.\<close>

lemma detectCandidate_miss:
  assumes ok: "\<forall>h. \<not> db_fails E h"
    and lang: "l \<noteq> []"
    and miss: "filter (error_where l (contains_pattern (take 100 errText))) (error_patterns w) = []"
    and reply: "api_reply E (trace w @
                  [Db (SelectErrorSolutions l (contains_pattern (take 100 errText))),
                   Api (solution_request H errText (Some l))]) = Content (Some s)"
    and nonblank: "trim s \<noteq> []"
  shows "detectCandidate E H (Some l) errText foundErrors w =
           await (recordError E \<lparr>err_errorText = errText, err_solution = trim s, err_language = l\<rparr>)
             (\<lambda>_. ret (foundErrors @ [(errText, trim s)]))
             (w\<lparr>trace := trace w @
                  [Db (SelectErrorSolutions l (contains_pattern (take 100 errText))),
                   Api (solution_request H errText (Some l))]\<rparr>)"
  using assms
  by (simp add: detectCandidate_def getErrorSolutions_def generateErrorSolution_def
      create_completion_def try_catch_def await_def ret_def run_stmt_def emit_def Let_def)







lemma find_snoc:
  "find P xs = None \<Longrightarrow> find P (xs @ [x]) = (if P x then Some x else None)"
  by (induction xs) (auto split: if_splits)


section \<open>C1: the Error Detector on a cache miss\<close>

text \<open>As stated, C1 fails: the lookup keys on the first 100 characters of the candidate and
  the write-back deduplicates on its first 50. With the error \<open>... is of type i64\<close> on
  record, the text \<open>... is of type u8\<close> is matched by one signature, whole; this candidate
  has no cached solution, the API is asked and answers, and \<open>recordError\<close> then finds
  the record of the other error, which shares the first 50 characters: no entry is
  created, that record goes to frequency 2 and takes the new solution.\<close>

theorem cache_miss_increments_other_record:
  "filter (error_where (js ''rust'') (contains_pattern (take 100 type_u8))) [type_i64] = [] \<and>
   detectErrors (quiet (Content (Some (js ''widen with u32::from'')))) helper type_u8
       (Some (js ''rust'')) (empty_world\<lparr>error_patterns := [type_i64]\<rparr>) =
     (Inr (Some [(type_u8, js ''widen with u32::from'')]),
      empty_world
        \<lparr>error_patterns :=
           [type_i64\<lparr>frequency := 2, lastEncountered := 4,
                      solution := js ''widen with u32::from''\<rparr>],
         trace :=
           [Db (SelectErrorSolutions (js ''rust'') (contains_pattern type_u8)),
            Api (solution_request helper type_u8 (Some (js ''rust''))),
            Db (SelectErrorPattern (js ''rust'') (contains_pattern (take 50 type_u8))),
            Clock,
            Db (UpdateErrorPattern 2 4 (js ''widen with u32::from'') (js ''e7''))]\<rparr>)"
proof -
  have signatures: "map (\<lambda>r. exec r type_u8) errorPatterns = [None, None, Some type_u8, None]"
    by (simp add: type_u8_def errorPatterns_def lit_def lit_i_def js_def to_lower_def
        is_space_def is_line_terminator_def is_digit_def)
  have miss: "\<not> sql_like (contains_pattern (take 100 type_u8)) (errorText type_i64)"
    by (simp add: type_u8_def type_i64_def contains_pattern_def js_def like_eq_def to_lower_def)
  have hit: "sql_like (contains_pattern (take 50 type_u8)) (errorText type_i64)"
    by (simp add: type_u8_def type_i64_def contains_pattern_def js_def like_eq_def to_lower_def)
  have len: "take 100 type_u8 = type_u8"
    by (simp add: type_u8_def js_def)
  have t: "trim (js ''widen with u32::from'') = js ''widen with u32::from''"
    by (simp add: trim_def js_def is_space_def)
  have l: "ep_language type_i64 = js ''rust''" "js ''rust'' \<noteq> []"
    "js ''widen with u32::from'' \<noteq> []"
    "frequency type_i64 = 1" "ep_id type_i64 = js ''e7''"
    by (simp_all add: type_i64_def js_def)
  show ?thesis
    using signatures miss hit l
    by (simp add: detectErrors_def errorPatterns_def detectCandidate_def getErrorSolutions_def
        generateErrorSolution_def recordError_def create_completion_def try_catch_def
        await_def ret_def run_stmt_def emit_def new_Date_def Let_def error_where_def
        update_error_pattern_def len t quiet_def empty_world_def)
qed

text \<open>
  C1 (amended). In the Error Detector, for every candidate error string processed with a
  language, with the storage answering: the solution cache is queried first, and when it
  holds no solution for the first 100 characters of the candidate, the completion API is
  invoked exactly once; when its reply, trimmed, is not empty, exactly one (error,
  solution) pair is emitted and \<open>recordError\<close> runs once. If the candidate has at most 50
  characters, or no record of the language matches its first 50 characters, and the
  generated id is new, exactly one entry is persisted, with frequency 1. If a record of
  the language matches the first 50 characters, no entry is created: the first such record
  gets its frequency incremented, the new solution and a new \<open>lastEncountered\<close>.
\<close>

theorem detectCandidate_cache_miss:
  fixes E :: env and H :: AIHelper and l errText s :: jsstring and w :: world
  defines "lookup \<equiv> Db (SelectErrorSolutions l (contains_pattern (take 100 errText)))"
    and "request \<equiv> Api (solution_request H errText (Some l))"
    and "similar \<equiv> Db (SelectErrorPattern l (contains_pattern (take 50 errText)))"
  assumes ok: "\<forall>h. \<not> db_fails E h"
    and lang: "l \<noteq> []"
    and miss: "filter (error_where l (contains_pattern (take 100 errText))) (error_patterns w) = []"
    and reply: "api_reply E (trace w @ [lookup, request]) = Content (Some s)"
    and nonblank: "trim s \<noteq> []"
  shows "((length errText \<le> 50 \<or>
           find (error_where l (contains_pattern (take 50 errText))) (error_patterns w) = None) \<and>
          uuidv4 E (trace w @ [lookup, request, similar, Uuid]) \<notin> set (map ep_id (error_patterns w)) \<longrightarrow>
          (\<exists>newError.
             newError =
               \<lparr>ep_id = uuidv4 E (trace w @ [lookup, request, similar, Uuid]),
                errorText = errText, solution = trim s, ep_language = l, frequency = 1,
                lastEncountered = clock E (trace w @ [lookup, request, similar, Uuid, Clock])\<rparr> \<and>
             detectCandidate E H (Some l) errText foundErrors w =
               (Inr (foundErrors @ [(errText, trim s)]),
                w\<lparr>trace := trace w @
                       [lookup, request, similar, Uuid, Clock, Db (InsertErrorPattern newError)],
                  error_patterns := error_patterns w @ [newError]\<rparr>))) \<and>
         (\<forall>existing.
            find (error_where l (contains_pattern (take 50 errText))) (error_patterns w) =
              Some existing \<longrightarrow>
            (\<exists>now.
               now = clock E (trace w @ [lookup, request, similar, Clock]) \<and>
               detectCandidate E H (Some l) errText foundErrors w =
                 (Inr (foundErrors @ [(errText, trim s)]),
                  w\<lparr>trace := trace w @
                         [lookup, request, similar, Clock,
                          Db (UpdateErrorPattern (frequency existing + 1) now (trim s)
                                (ep_id existing))],
                    error_patterns :=
                      map (update_error_pattern (frequency existing + 1) now (trim s)
                             (ep_id existing))
                        (error_patterns w)\<rparr>)))"
proof (intro conjI impI allI)
  let ?w = "w\<lparr>trace := trace w @ [lookup, request]\<rparr>"
  let ?err = "\<lparr>err_errorText = errText, err_solution = trim s, err_language = l\<rparr>"
  note step = detectCandidate_miss [OF ok lang miss reply [unfolded lookup_def request_def] nonblank,
      of foundErrors, folded lookup_def request_def]
  {
    assume new: "(length errText \<le> 50 \<or>
           find (error_where l (contains_pattern (take 50 errText))) (error_patterns w) = None) \<and>
          uuidv4 E (trace w @ [lookup, request, similar, Uuid]) \<notin> set (map ep_id (error_patterns w))"
    have none: "find (error_where l (contains_pattern (take 50 errText))) (error_patterns w) = None"
    proof (cases "length errText \<le> 50")
      case True
      then have "take 50 errText = take 100 errText" by simp
      then show ?thesis using miss by (simp add: find_None_iff filter_empty_conv)
    next
      case False
      then show ?thesis using new by simp
    qed
    have none': "find (error_where (err_language ?err) (contains_pattern (take 50 (err_errorText ?err))))
                   (error_patterns ?w) = None"
      using none by simp
    have fresh': "uuidv4 E (trace ?w @
                  [Db (SelectErrorPattern (err_language ?err)
                         (contains_pattern (take 50 (err_errorText ?err)))), Uuid])
                \<notin> set (map ep_id (error_patterns ?w))"
      using new by (simp add: similar_def)
    show "\<exists>newError.
             newError =
               \<lparr>ep_id = uuidv4 E (trace w @ [lookup, request, similar, Uuid]),
                errorText = errText, solution = trim s, ep_language = l, frequency = 1,
                lastEncountered = clock E (trace w @ [lookup, request, similar, Uuid, Clock])\<rparr> \<and>
             detectCandidate E H (Some l) errText foundErrors w =
               (Inr (foundErrors @ [(errText, trim s)]),
                w\<lparr>trace := trace w @
                       [lookup, request, similar, Uuid, Clock, Db (InsertErrorPattern newError)],
                  error_patterns := error_patterns w @ [newError]\<rparr>)"
      unfolding step
      by (simp add: await_def ret_def recordError_fresh [OF ok none' fresh'] similar_def Let_def)
  }
  {
    fix existing
    assume found: "find (error_where l (contains_pattern (take 50 errText))) (error_patterns w) =
              Some existing"
    have found': "find (error_where (err_language ?err) (contains_pattern (take 50 (err_errorText ?err))))
                   (error_patterns ?w) = Some existing"
      using found by simp
    show "\<exists>now.
               now = clock E (trace w @ [lookup, request, similar, Clock]) \<and>
               detectCandidate E H (Some l) errText foundErrors w =
                 (Inr (foundErrors @ [(errText, trim s)]),
                  w\<lparr>trace := trace w @
                         [lookup, request, similar, Clock,
                          Db (UpdateErrorPattern (frequency existing + 1) now (trim s)
                                (ep_id existing))],
                    error_patterns :=
                      map (update_error_pattern (frequency existing + 1) now (trim s)
                             (ep_id existing))
                        (error_patterns w)\<rparr>)"
      unfolding step
      by (simp add: await_def ret_def recordError_existing [OF ok found'] similar_def)
  }
qed

text \<open>A short candidate unlike the record in the store: one lookup, one request, one new
  entry of frequency 1 behind the old one.\<close>

theorem detectCandidate_cache_miss_witness:
  "detectCandidate (quiet (Content (Some (js '' import the function '')))) helper (Some (js ''js''))
       (js ''TypeError: x is not a function'') [] (empty_world\<lparr>error_patterns := [type_i64]\<rparr>) =
     (Inr [(js ''TypeError: x is not a function'', js ''import the function'')],
      empty_world
        \<lparr>error_patterns :=
           [type_i64,
            \<lparr>ep_id = js ''id-****'', errorText = js ''TypeError: x is not a function'',
             solution = js ''import the function'', ep_language = js ''js'', frequency = 1,
             lastEncountered = 5\<rparr>],
         trace :=
           [Db (SelectErrorSolutions (js ''js'') (js ''%TypeError: x is not a function%'')),
            Api (solution_request helper (js ''TypeError: x is not a function'') (Some (js ''js''))),
            Db (SelectErrorPattern (js ''js'') (js ''%TypeError: x is not a function%'')),
            Uuid, Clock,
            Db (InsertErrorPattern
                  \<lparr>ep_id = js ''id-****'', errorText = js ''TypeError: x is not a function'',
                   solution = js ''import the function'', ep_language = js ''js'', frequency = 1,
                   lastEncountered = 5\<rparr>)]\<rparr>)"
proof -
  let ?E = "quiet (Content (Some (js '' import the function '')))"
  let ?t = "js ''TypeError: x is not a function''"
  let ?w = "empty_world\<lparr>error_patterns := [type_i64]\<rparr>"
  have ok: "\<forall>h. \<not> db_fails ?E h" by (simp add: quiet_def)
  have lang: "js ''js'' \<noteq> []" by (simp add: js_def)
  have miss: "filter (error_where (js ''js'') (contains_pattern (take 100 ?t))) (error_patterns ?w) = []"
    by (simp add: error_where_def type_i64_def contains_pattern_def js_def like_eq_def
        to_lower_def)
  have reply: "api_reply ?E (trace ?w @
                 [Db (SelectErrorSolutions (js ''js'') (contains_pattern (take 100 ?t))),
                  Api (solution_request helper ?t (Some (js ''js'')))]) =
               Content (Some (js '' import the function ''))"
    by (simp add: quiet_def)
  have s: "trim (js '' import the function '') = js ''import the function''"
    by (simp add: trim_def js_def is_space_def)
  have nonblank: "trim (js '' import the function '') \<noteq> []"
    unfolding s by (simp add: js_def)
  have short: "length ?t \<le> 50" by (simp add: js_def)
  have fresh: "uuidv4 ?E (trace ?w @
                 [Db (SelectErrorSolutions (js ''js'') (contains_pattern (take 100 ?t))),
                  Api (solution_request helper ?t (Some (js ''js''))),
                  Db (SelectErrorPattern (js ''js'') (contains_pattern (take 50 ?t))), Uuid])
               \<notin> set (map ep_id (error_patterns ?w))"
    by (simp add: quiet_def empty_world_def type_i64_def js_def)
  from detectCandidate_cache_miss [OF ok lang miss reply nonblank, of "[]"] short fresh
  have "detectCandidate ?E helper (Some (js ''js'')) ?t [] ?w =
          (Inr ([] @ [(?t, trim (js '' import the function ''))]),
           ?w\<lparr>trace := trace ?w @
                 [Db (SelectErrorSolutions (js ''js'') (contains_pattern (take 100 ?t))),
                  Api (solution_request helper ?t (Some (js ''js''))),
                  Db (SelectErrorPattern (js ''js'') (contains_pattern (take 50 ?t))), Uuid, Clock,
                  Db (InsertErrorPattern
                        \<lparr>ep_id = uuidv4 ?E (trace ?w @
                           [Db (SelectErrorSolutions (js ''js'') (contains_pattern (take 100 ?t))),
                            Api (solution_request helper ?t (Some (js ''js''))),
                            Db (SelectErrorPattern (js ''js'') (contains_pattern (take 50 ?t))), Uuid]),
                         errorText = ?t, solution = trim (js '' import the function ''),
                         ep_language = js ''js'', frequency = 1,
                         lastEncountered = clock ?E (trace ?w @
                           [Db (SelectErrorSolutions (js ''js'') (contains_pattern (take 100 ?t))),
                            Api (solution_request helper ?t (Some (js ''js''))),
                            Db (SelectErrorPattern (js ''js'') (contains_pattern (take 50 ?t))),
                            Uuid, Clock])\<rparr>)],
               error_patterns := error_patterns ?w @
                 [\<lparr>ep_id = uuidv4 ?E (trace ?w @
                           [Db (SelectErrorSolutions (js ''js'') (contains_pattern (take 100 ?t))),
                            Api (solution_request helper ?t (Some (js ''js''))),
                            Db (SelectErrorPattern (js ''js'') (contains_pattern (take 50 ?t))), Uuid]),
                   errorText = ?t, solution = trim (js '' import the function ''),
                   ep_language = js ''js'', frequency = 1,
                   lastEncountered = clock ?E (trace ?w @
                           [Db (SelectErrorSolutions (js ''js'') (contains_pattern (take 100 ?t))),
                            Api (solution_request helper ?t (Some (js ''js''))),
                            Db (SelectErrorPattern (js ''js'') (contains_pattern (take 50 ?t))),
                            Uuid, Clock])\<rparr>]\<rparr>)"
    by blast
  then show ?thesis
    unfolding s
    by (simp add: quiet_def empty_world_def contains_pattern_def js_def)
qed

section \<open>C2: a repeated error is counted on its record\<close>



section \<open>C3: the parsed suggestions\<close>

text \<open>As stated, C3 fails: the source removes one marker from a line, so a line whose
  text itself begins with a hyphen, such as \<open>- --force is unsafe\<close>, gives an entry that
  begins with a bullet marker.\<close>

theorem suggestion_keeps_second_marker:
  "fst (generateSuggestions (quiet (Content (Some (js ''- --force is unsafe'')))) helper
          (js ''rm -rf build'') None None empty_world) =
     Inr [js ''--force is unsafe''] \<and>
   startsWith (js ''--force is unsafe'') 0x2D"
  by (simp add: generateSuggestions_def try_catch_def await_def ret_def getCurrentContext_def
      getSnippets_def run_stmt_def emit_def create_completion_def quiet_def empty_world_def
      suggestion_request_def
      Let_def sql_limit_def parseSuggestions_def js_def startsWith_def strip_marker_def
      is_marker_def trim_def is_space_def)

text \<open>
  C3 (amended). For every text the completion API returns, the parsed list has at most 3
  entries and consists of exactly the first 3 (or fewer) lines of the text that begin with
  a bullet marker, each without its first character (the marker) and trimmed of
  surrounding white space. An entry begins with a bullet marker exactly when, on its
  line, the first marker is followed, after optional white space, by another marker.
\<close>

theorem parseSuggestions_bullets:
  "length (parseSuggestions text) \<le> 3 \<and>
   parseSuggestions text =
     map (\<lambda>line. trim (tl line))
       (take 3 (filter (\<lambda>line. startsWith line 0x2D \<or> startsWith line 0x2022)
                  (split 0x0A text))) \<and>
   (\<forall>line \<in> set (split 0x0A text).
      (startsWith (trim (tl line)) 0x2D \<or> startsWith (trim (tl line)) 0x2022) =
      (startsWith (dropWhile is_space (tl line)) 0x2D \<or>
       startsWith (dropWhile is_space (tl line)) 0x2022))"
proof (intro conjI)
  show "length (parseSuggestions text) \<le> 3"
    by (simp add: parseSuggestions_def)
next
  let ?keep = "\<lambda>line. if startsWith line 0x2D then True else startsWith line 0x2022"
  let ?bullet = "\<lambda>line. startsWith line 0x2D \<or> startsWith line 0x2022"
  have same: "?keep = ?bullet"
    by (rule ext) simp
  have strip: "map (\<lambda>line. trim (strip_marker line)) (filter ?keep (split 0x0A text)) =
        map (\<lambda>line. trim (tl line)) (filter ?keep (split 0x0A text))"
    by (rule map_cong) (auto dest: strip_bullet_line)
  have "parseSuggestions text =
          take 3 (map (\<lambda>line. trim (strip_marker line)) (filter ?keep (split 0x0A text)))"
    by (simp only: parseSuggestions_def)
  also have "\<dots> = take 3 (map (\<lambda>line. trim (tl line)) (filter ?keep (split 0x0A text)))"
    by (simp only: strip)
  also have "\<dots> = map (\<lambda>line. trim (tl line)) (take 3 (filter ?keep (split 0x0A text)))"
    by (simp only: take_map)
  also have "\<dots> = map (\<lambda>line. trim (tl line)) (take 3 (filter ?bullet (split 0x0A text)))"
    by (simp only: same)
  finally show "parseSuggestions text =
     map (\<lambda>line. trim (tl line))
       (take 3 (filter (\<lambda>line. startsWith line 0x2D \<or> startsWith line 0x2022)
                  (split 0x0A text)))" .
next
  show "\<forall>line \<in> set (split 0x0A text).
      (startsWith (trim (tl line)) 0x2D \<or> startsWith (trim (tl line)) 0x2022) =
      (startsWith (dropWhile is_space (tl line)) 0x2D \<or>
       startsWith (dropWhile is_space (tl line)) 0x2022)"
    by (simp add: startsWith_trim)
qed

text \<open>A reply of six lines, four of them bullets: the first three bullets are kept.\<close>

theorem parseSuggestions_bullets_witness:
  "parseSuggestions
     (js ''Here you go:\<newline>- add a guard \<newline>some prose\<newline>-x\<newline>- --force is unsafe\<newline>- four'') =
   [js ''add a guard'', js ''x'', js ''--force is unsafe'']"
proof -
  let ?t = "js ''Here you go:\<newline>- add a guard \<newline>some prose\<newline>-x\<newline>- --force is unsafe\<newline>- four''"
  from parseSuggestions_bullets [of ?t]
  have "parseSuggestions ?t =
     map (\<lambda>line. trim (tl line))
       (take 3 (filter (\<lambda>line. startsWith line 0x2D \<or> startsWith line 0x2022)
                  (split 0x0A ?t)))"
    by blast
  also have "\<dots> = [js ''add a guard'', js ''x'', js ''--force is unsafe'']"
    by (simp add: js_def startsWith_def trim_def is_space_def)
  finally show ?thesis .
qed

section \<open>C4: the Snippet Matcher\<close>

text \<open>
  C4. For every input, collaborator and store, \<open>findRelevantSnippets\<close> returns without an
  exception, and what it returns is the "no result" signal or at most 2 snippets. Whenever
  the input is not blank and the exact-substring search (the language filter, the search
  term built from the first 50 characters of the trimmed input, the limit 2) finds at
  least one snippet, exactly those snippets are returned, and that search is the only
  event of the call: no embedding is generated and no similarity is computed.
\<close>

theorem findRelevantSnippets_exact_first:
  "(case fst (findRelevantSnippets E H code language w) of
      Inl e \<Rightarrow> False
    | Inr None \<Rightarrow> True
    | Inr (Some found) \<Rightarrow> length found \<le> 2) \<and>
   (\<forall>exact w1.
      trim code \<noteq> [] \<and>
      getSnippets E \<lparr>q_language = language, q_searchTerm = Some (take 50 (trim code)),
                     q_limit = Some 2\<rparr> w = (Inr exact, w1) \<and>
      exact \<noteq> [] \<longrightarrow>
      findRelevantSnippets E H code language w = (Inr (Some exact), w1) \<and>
      trace w1 = trace w @
        [Db (SelectSnippets (given language) (Some (contains_pattern (take 50 (trim code))))
               (Some 2))])"
proof (intro conjI allI impI)
  show "case fst (findRelevantSnippets E H code language w) of
      Inl e \<Rightarrow> False
    | Inr None \<Rightarrow> True
    | Inr (Some found) \<Rightarrow> length found \<le> 2"
    by (auto simp: findRelevantSnippets_def try_catch_def await_def ret_def getSnippets_def
        run_stmt_def Let_def sql_limit_def generateEmbedding_def
        split: prod.splits sum.splits option.splits)
next
  fix exact w1
  assume h: "trim code \<noteq> [] \<and>
      getSnippets E \<lparr>q_language = language, q_searchTerm = Some (take 50 (trim code)),
                     q_limit = Some 2\<rparr> w = (Inr exact, w1) \<and>
      exact \<noteq> []"
  then show "findRelevantSnippets E H code language w = (Inr (Some exact), w1)"
    by (simp add: findRelevantSnippets_def try_catch_def await_def ret_def)
next
  fix exact w1
  assume h: "trim code \<noteq> [] \<and>
      getSnippets E \<lparr>q_language = language, q_searchTerm = Some (take 50 (trim code)),
                     q_limit = Some 2\<rparr> w = (Inr exact, w1) \<and>
      exact \<noteq> []"
  then have "given (Some (take 50 (trim code))) = Some (take 50 (trim code))"
    by (cases "trim code") (simp_all add: given_def truthy_def)
  then show "trace w1 = trace w @
        [Db (SelectSnippets (given language) (Some (contains_pattern (take 50 (trim code))))
               (Some 2))]"
    using h by (auto simp: getSnippets_def run_stmt_def emit_def Let_def split: if_splits)
qed

text \<open>A stored snippet that contains the trimmed input is returned as it is, after one
  statement.\<close>

theorem findRelevantSnippets_exact_first_witness:
  "findRelevantSnippets (quiet Rejected) helper (js ''  items.reduce(add  '') (Some (js ''js''))
     (empty_world\<lparr>snippets := [old_snippet]\<rparr>) =
   (Inr (Some [old_snippet]),
    empty_world\<lparr>snippets := [old_snippet],
                 trace := [Db (SelectSnippets (Some (js ''js''))
                                 (Some (js ''%items.reduce(add%'')) (Some 2))]\<rparr>)"
proof -
  let ?w = "empty_world\<lparr>snippets := [old_snippet]\<rparr>"
  let ?code = "js ''  items.reduce(add  ''"
  let ?w1 = "empty_world\<lparr>snippets := [old_snippet],
                 trace := [Db (SelectSnippets (Some (js ''js''))
                                 (Some (js ''%items.reduce(add%'')) (Some 2))]\<rparr>"
  have t: "trim ?code = js ''items.reduce(add''"
    by (simp add: trim_def js_def is_space_def)
  have g: "getSnippets (quiet Rejected)
             \<lparr>q_language = Some (js ''js''), q_searchTerm = Some (take 50 (trim ?code)),
              q_limit = Some 2\<rparr> ?w = (Inr [old_snippet], ?w1)"
    unfolding t
    by (simp add: getSnippets_def run_stmt_def emit_def quiet_def empty_world_def Let_def
        sql_limit_def snippet_where_def old_snippet_def given_def truthy_def js_def
        contains_pattern_def like_eq_def to_lower_def)
  have n: "trim ?code \<noteq> []" unfolding t by (simp add: js_def)
  from findRelevantSnippets_exact_first [of "quiet Rejected" helper ?code "Some (js ''js'')" ?w]
    n g
  show ?thesis by blast
qed

section \<open>C5: the pipeline on empty input\<close>

text \<open>As stated, C5 fails: the Suggestion Generator has no guard for empty input. It sends
  its prompt with an empty code section, and what the completion API replies is parsed
  like any other reply.\<close>

theorem empty_input_still_suggests:
  "fst (processCodeContent (quiet (Content (Some (js ''- add a main function'')))) helper []
          \<lparr>ctx_filePath = None, ctx_language = None, ctx_sourceApp = js ''x''\<rparr> empty_world) =
     Inr \<lparr>res_suggestions = [js ''add a main function''], res_errors = None,
          res_snippets = None\<rparr>"
proof -
  have t: "trim [] = []" by (simp add: trim_def)
  show ?thesis
    by (simp add: processCodeContent_def detectErrors_empty findRelevantSnippets_blank [OF t]
        updateDeveloperContext_def generateSuggestions_def try_catch_def
        await_def ret_def new_Date_def emit_def Let_def getCurrentContext_def
        getSnippets_def run_stmt_def create_completion_def quiet_def empty_world_def
        sql_limit_def parseSuggestions_def js_def startsWith_def strip_marker_def
        is_marker_def trim_def is_space_def)
qed

text \<open>
  C5 (amended). Whenever the context update succeeds, \<open>processCodeContent\<close> on the empty
  text does not throw and returns \<open>{ suggestions: S, errors: undefined, snippets:
  undefined }\<close>, where \<open>S\<close> is what the Suggestion Generator returns in the world the
  context update leaves: at most 3 entries, and the empty list for every completion API
  whose replies hold no bullet line.
\<close>

theorem process_empty_input:
  assumes upd: "updateDeveloperContext E
                 \<lparr>upd_currentApp = Some (ctx_sourceApp c), upd_activeFile = ctx_filePath c,
                  upd_projectRoot = None, upd_lastActivity = Some (clock E (trace w @ [Clock]))\<rparr>
                 (emit Clock w) = (Inr (), w1)"
  shows "\<exists>sugg w'.
           generateSuggestions E H [] (ctx_filePath c) (ctx_language c) w1 = (Inr sugg, w') \<and>
           processCodeContent E H [] c w =
             (Inr \<lparr>res_suggestions = sugg, res_errors = None, res_snippets = None\<rparr>, w') \<and>
           length sugg \<le> 3 \<and>
           ((\<forall>h text. api_reply E h = Content (Some text) \<longrightarrow> parseSuggestions text = []) \<longrightarrow>
              sugg = [])"
proof -
  from generateSuggestions_result [of E H "[]" "ctx_filePath c" "ctx_language c" w1]
  obtain sugg w' where
      g: "generateSuggestions E H [] (ctx_filePath c) (ctx_language c) w1 = (Inr sugg, w')"
    and len: "length sugg \<le> 3"
    and src: "sugg = [] \<or> (\<exists>h text. api_reply E h = Content (Some text) \<and> sugg = parseSuggestions text)"
    by blast
  have t: "trim [] = []" by (simp add: trim_def)
  have "processCodeContent E H [] c w =
          (Inr \<lparr>res_suggestions = sugg, res_errors = None, res_snippets = None\<rparr>, w')"
    using upd g
    by (simp add: processCodeContent_def detectErrors_empty findRelevantSnippets_blank [OF t]
        await_def ret_def new_Date_def emit_def Let_def)
  moreover have "(\<forall>h text. api_reply E h = Content (Some text) \<longrightarrow> parseSuggestions text = [])
                   \<longrightarrow> sugg = []"
    using src by auto
  ultimately show ?thesis using g len by blast
qed

text \<open>With an API that replies in prose, the result is the one C5 names.\<close>

theorem process_empty_input_witness:
  "\<exists>w'. processCodeContent (quiet (Content (Some (js ''No suggestions without code.'')))) helper []
          \<lparr>ctx_filePath = None, ctx_language = None, ctx_sourceApp = js ''x''\<rparr> empty_world =
     (Inr \<lparr>res_suggestions = [], res_errors = None, res_snippets = None\<rparr>, w')"
proof -
  let ?E = "quiet (Content (Some (js ''No suggestions without code.'')))"
  let ?c = "\<lparr>ctx_filePath = None, ctx_language = None, ctx_sourceApp = js ''x''\<rparr>"
  let ?w1 = "empty_world\<lparr>developer_context :=
                [(1, \<lparr>currentApp = js ''x'', activeFile = None, projectRoot = None,
                      lastActivity = 2\<rparr>)], context_seq := 1,
              trace := [Clock, Clock,
                Db (InsertContext \<lparr>currentApp = js ''x'', activeFile = None, projectRoot = None,
                      lastActivity = 2\<rparr>)]\<rparr>"
  have upd: "updateDeveloperContext ?E
                 \<lparr>upd_currentApp = Some (ctx_sourceApp ?c), upd_activeFile = ctx_filePath ?c,
                  upd_projectRoot = None,
                  upd_lastActivity = Some (clock ?E (trace empty_world @ [Clock]))\<rparr>
                 (emit Clock empty_world) = (Inr (), ?w1)"
    by (simp add: updateDeveloperContext_def await_def new_Date_def run_stmt_def emit_def
        quiet_def empty_world_def Let_def or_else_def js_def)
  have none: "\<forall>h text. api_reply ?E h = Content (Some text) \<longrightarrow> parseSuggestions text = []"
    by (simp add: quiet_def parseSuggestions_def js_def startsWith_def)
  from process_empty_input [OF upd, of helper] none
  show ?thesis by blast
qed

section \<open>C6: the retention sweep\<close>




section \<open>C7: the Suggestion Generator swallows failures\<close>

text \<open>
  C7. For every collaborator, input and store, \<open>generateSuggestions\<close> returns a list and
  never an exception. When the retrieval of the developer context fails, when the
  retrieval of the snippets fails, or when the completion API rejects the request, the
  list it returns is empty.
\<close>

theorem generateSuggestions_swallows:
  "(\<exists>sugg w'. generateSuggestions E H code path language w = (Inr sugg, w')) \<and>
   (db_fails E (trace w @ [Db SelectContext]) \<longrightarrow>
      fst (generateSuggestions E H code path language w) = Inr []) \<and>
   (db_fails E (trace w @ [Db SelectContext, Db (SelectSnippets (given language) None (Some 3))]) \<longrightarrow>
      fst (generateSuggestions E H code path language w) = Inr []) \<and>
   (api_reply E (trace w @
       [Db SelectContext, Db (SelectSnippets (given language) None (Some 3)),
        Api (suggestion_request H code path language
               (take 3 (sort_key (\<lambda>r. - timestamp r)
                  (filter (snippet_where
                     \<lparr>q_language = language, q_searchTerm = None, q_limit = Some 3\<rparr>)
                     (snippets w)))))]) = Rejected \<longrightarrow>
      fst (generateSuggestions E H code path language w) = Inr [])"
  by (auto simp: generateSuggestions_def try_catch_def await_def ret_def getCurrentContext_def
      getSnippets_def run_stmt_def emit_def create_completion_def Let_def sql_limit_def given_None
      split: reply.splits option.splits)

text \<open>A storage that is down, a storage that fails on its second statement and an API that
  rejects all give the empty list; with the storage answering twice and the API replying
  with a bullet, the suggestion comes through.\<close>

theorem generateSuggestions_swallows_witness:
  "fst (generateSuggestions (failing_after 0) helper (js ''let x'') None None empty_world) = Inr [] \<and>
   fst (generateSuggestions (failing_after 1) helper (js ''let x'') None None empty_world) = Inr [] \<and>
   fst (generateSuggestions (quiet Rejected) helper (js ''let x'') None None empty_world) = Inr [] \<and>
   fst (generateSuggestions (failing_after 2) helper (js ''let x'') None None empty_world) =
     Inr [js ''add a guard'']"
proof -
  have a: "db_fails (failing_after 0) (trace empty_world @ [Db SelectContext])"
    by (simp add: failing_after_def given_None)
  have b: "db_fails (failing_after 1)
             (trace empty_world @ [Db SelectContext, Db (SelectSnippets (given None) None (Some 3))])"
    by (simp add: failing_after_def given_None)
  have c: "api_reply (quiet Rejected) (trace empty_world @
       [Db SelectContext, Db (SelectSnippets (given None) None (Some 3)),
        Api (suggestion_request helper (js ''let x'') None None
               (take 3 (sort_key (\<lambda>r. - timestamp r)
                  (filter (snippet_where
                     \<lparr>q_language = None, q_searchTerm = None, q_limit = Some 3\<rparr>)
                     (snippets empty_world)))))]) = Rejected"
    by (simp add: quiet_def given_None)
  have d: "fst (generateSuggestions (failing_after 2) helper (js ''let x'') None None empty_world) =
     Inr [js ''add a guard'']"
    by (simp add: generateSuggestions_def try_catch_def await_def ret_def getCurrentContext_def
      getSnippets_def run_stmt_def emit_def create_completion_def failing_after_def quiet_def given_None
      empty_world_def suggestion_request_def
      Let_def sql_limit_def parseSuggestions_def js_def startsWith_def strip_marker_def
      is_marker_def trim_def is_space_def)
  show ?thesis
    using generateSuggestions_swallows [of "failing_after 0" helper "js ''let x''" None None empty_world]
      generateSuggestions_swallows [of "failing_after 1" helper "js ''let x''" None None empty_world]
      generateSuggestions_swallows [of "quiet Rejected" helper "js ''let x''" None None empty_world]
      a b c d
    by blast
qed

section \<open>C8: the Context Updater\<close>

text \<open>
  C8. The Context Updater is to be the only stage of the pipeline whose failure reaches
  the caller. The source does not keep to this. On the text \<open>error: x is undefined\<close> with
  the language \<open>js\<close>, against a storage that fails on the lookup of cached solutions
  only, the context update succeeds and its row is in the store, and still the call
  throws: \<open>detectErrors\<close> awaits \<open>getErrorSolutions\<close> outside any \<open>try\<close>, where the two
  other analyses wrap their storage calls in \<open>try\<close>/\<open>catch\<close>. The statement is the
  evaluation of the pipeline on that input: the error returned, the context row, and the
  events up to the failing statement.
\<close>

theorem detector_storage_failure_escapes:
  "\<exists>w'. processCodeContent cache_down helper (js ''error: x is undefined'') js_descriptor
           empty_world = (Inl StorageError, w') \<and>
        developer_context w' =
          [(1, \<lparr>currentApp = js ''code'', activeFile = None, projectRoot = None,
                lastActivity = 2\<rparr>)] \<and>
        trace w' =
          [Clock, Clock,
           Db (InsertContext \<lparr>currentApp = js ''code'', activeFile = None, projectRoot = None,
                 lastActivity = 2\<rparr>),
           Db (SelectErrorSolutions (js ''js'') (js ''%error: x is undefined%''))]"
  using exec_error_x
  by (simp add: processCodeContent_def updateDeveloperContext_def detectErrors_def
      detectCandidate_def getErrorSolutions_def errorPatterns_def
      await_def ret_def new_Date_def run_stmt_def emit_def Let_def cache_down_def quiet_def
      empty_world_def js_descriptor_def or_else_def contains_pattern_def js_def)

section \<open>C9: the cache lookup\<close>

text \<open>
  C9. For every error text and language, with the storage answering: \<open>getErrorSolutions\<close>
  returns at most 5 error patterns, in descending order of frequency, each of the given
  language and matched by the lookup key; the key is built from the first 100 characters
  of the error text only, so a longer text and its first 100 characters are the same
  query.
\<close>

theorem getErrorSolutions_top5:
  assumes "\<not> db_fails E (trace w @ [Db (SelectErrorSolutions l (contains_pattern (take 100 errText)))])"
  shows "getErrorSolutions E errText l = getErrorSolutions E (take 100 errText) l \<and>
         (\<exists>rows. getErrorSolutions E errText l w =
             (Inr rows, emit (Db (SelectErrorSolutions l (contains_pattern (take 100 errText)))) w) \<and>
           length rows \<le> 5 \<and>
           sorted_wrt (\<lambda>a b. frequency b \<le> frequency a) rows \<and>
           set rows \<subseteq> {r \<in> set (error_patterns w). ep_language r = l \<and>
                           sql_like (contains_pattern (take 100 errText)) (errorText r)})"
proof -
  let ?p = "contains_pattern (take 100 errText)"
  let ?rows = "take 5 (sort_key (\<lambda>r. - frequency r) (filter (error_where l ?p) (error_patterns w)))"
  have run: "getErrorSolutions E errText l w = (Inr ?rows, emit (Db (SelectErrorSolutions l ?p)) w)"
    using assms by (simp add: getErrorSolutions_def run_stmt_def emit_def Let_def)
  have len: "length ?rows \<le> 5" by simp
  have ord: "sorted_wrt (\<lambda>a b. frequency b \<le> frequency a) ?rows"
    using sorted_desc_frequency by (rule sorted_wrt_take)
  have sub: "set ?rows \<subseteq> {r \<in> set (error_patterns w). ep_language r = l \<and> sql_like ?p (errorText r)}"
  proof
    fix r assume "r \<in> set ?rows"
    then have "r \<in> set (sort_key (\<lambda>r. - frequency r) (filter (error_where l ?p) (error_patterns w)))"
      by (rule in_set_takeD)
    then show "r \<in> {r \<in> set (error_patterns w). ep_language r = l \<and> sql_like ?p (errorText r)}"
      by (auto simp: error_where_def split: if_splits)
  qed
  show ?thesis using run len ord sub getErrorSolutions_key by blast
qed

text \<open>A store with two records that the key matches: the more frequent one comes first.\<close>

theorem getErrorSolutions_top5_witness:
  "\<exists>w'. getErrorSolutions (quiet Rejected) (js ''TypeError: x is not a function'') (js ''js'')
           (empty_world\<lparr>error_patterns := [known_error, frequent_error]\<rparr>) =
          (Inr [frequent_error, known_error], w')"
proof -
  let ?w = "empty_world\<lparr>error_patterns := [known_error, frequent_error]\<rparr>"
  let ?t = "js ''TypeError: x is not a function''"
  have ok: "\<not> db_fails (quiet Rejected)
              (trace ?w @ [Db (SelectErrorSolutions (js ''js'') (contains_pattern (take 100 ?t)))])"
    by (simp add: quiet_def)
  from getErrorSolutions_top5 [OF ok]
  obtain rows where
      run: "getErrorSolutions (quiet Rejected) ?t (js ''js'') ?w =
              (Inr rows, emit (Db (SelectErrorSolutions (js ''js'') (contains_pattern (take 100 ?t)))) ?w)"
    by blast
  have "getErrorSolutions (quiet Rejected) ?t (js ''js'') ?w =
          (Inr [frequent_error, known_error],
           emit (Db (SelectErrorSolutions (js ''js'') (contains_pattern (take 100 ?t)))) ?w)"
    by (simp add: getErrorSolutions_def run_stmt_def emit_def quiet_def empty_world_def
        error_where_def known_error_def frequent_error_def js_def contains_pattern_def
        like_eq_def to_lower_def Let_def)
  with run show ?thesis by blast
qed

section \<open>C10: a snippet found by its tags\<close>



section \<open>Further properties\<close>

text \<open>
  The Context Updater. \<open>updateDeveloperContext\<close> reads the clock and issues one insert;
  when the insert fails the failure is its result and no table changes; otherwise one row
  is appended, stamped with the instant read, with \<open>unknown\<close> for an absent or empty app
  name.
\<close>

theorem updateDeveloperContext_appends:
  "updateDeveloperContext E u w =
     (let row = \<lparr>currentApp = (case upd_currentApp u of
                                   None \<Rightarrow> js ''unknown''
                                 | Some a \<Rightarrow> if a = [] then js ''unknown'' else a),
                 activeFile = upd_activeFile u, projectRoot = upd_projectRoot u,
                 lastActivity = clock E (trace w @ [Clock])\<rparr>;
          issued = w\<lparr>trace := trace w @ [Clock, Db (InsertContext row)]\<rparr>
      in if db_fails E (trace w @ [Clock, Db (InsertContext row)])
         then (Inl StorageError, issued)
         else (Inr (),
               issued\<lparr>developer_context := developer_context w @ [(Suc (context_seq w), row)],
                      context_seq := Suc (context_seq w)\<rparr>))"
  by (simp add: updateDeveloperContext_def await_def new_Date_def run_stmt_def emit_def
      Let_def or_else_def)

text \<open>
  The pipeline awaits the context update first. When its insert fails, that failure is
  the result of \<open>processCodeContent\<close> and the insert is the last event: no analysis
  starts. Otherwise the three analyses run in the world that holds the new row.
\<close>

theorem context_update_before_analysis:
  "processCodeContent E H text c w =
     (let row = \<lparr>currentApp = (if ctx_sourceApp c = [] then js ''unknown'' else ctx_sourceApp c),
                 activeFile = ctx_filePath c, projectRoot = None,
                 lastActivity = clock E (trace w @ [Clock, Clock])\<rparr>;
          issued = w\<lparr>trace := trace w @ [Clock, Clock, Db (InsertContext row)]\<rparr>
      in if db_fails E (trace w @ [Clock, Clock, Db (InsertContext row)])
         then (Inl StorageError, issued)
         else
           await (detectErrors E H text (ctx_language c)) (\<lambda>errorAnalysis.
           await (generateSuggestions E H text (ctx_filePath c) (ctx_language c))
             (\<lambda>suggestionAnalysis.
           await (findRelevantSnippets E H text (ctx_language c)) (\<lambda>snippetMatch.
             ret \<lparr>res_suggestions = suggestionAnalysis, res_errors = errorAnalysis,
                  res_snippets = snippetMatch\<rparr>)))
             (issued\<lparr>developer_context := developer_context w @ [(Suc (context_seq w), row)],
                     context_seq := Suc (context_seq w)\<rparr>))"
  by (simp add: processCodeContent_def updateDeveloperContext_def await_def new_Date_def
      run_stmt_def emit_def Let_def or_else_def)

text \<open>
  Two observations. In a store where no record of the language matches the first 50
  characters of an error text, with the storage answering and a new id: after
  \<open>recordError\<close> for that text and \<open>recordError\<close> again for a text of the same language
  and the same first 50 characters, the store holds exactly one record more than before,
  with frequency 2, the second solution and the instant of the second call.
\<close>

theorem recordError_twice:
  assumes ok: "\<forall>h. \<not> db_fails E h"
    and none: "find (error_where (err_language err) (contains_pattern (take 50 (err_errorText err))))
                 (error_patterns w) = None"
    and fresh: "uuidv4 E (trace w @
                  [Db (SelectErrorPattern (err_language err)
                         (contains_pattern (take 50 (err_errorText err)))), Uuid])
                \<notin> set (map ep_id (error_patterns w))"
    and again: "err_language err2 = err_language err"
               "take 50 (err_errorText err2) = take 50 (err_errorText err)"
  shows "\<exists>first w1 w2.
           recordError E err w = (Inr first, w1) \<and> frequency first = 1 \<and>
           error_patterns w1 = error_patterns w @ [first] \<and>
           recordError E err2 w1 = (Inr (first\<lparr>frequency := 2\<rparr>), w2) \<and>
           error_patterns w2 =
             error_patterns w @
               [first\<lparr>frequency := 2,
                       lastEncountered :=
                         clock E (trace w1 @
                           [Db (SelectErrorPattern (err_language err)
                                  (contains_pattern (take 50 (err_errorText err)))), Clock]),
                       solution := err_solution err2\<rparr>]"
proof -
  let ?p = "contains_pattern (take 50 (err_errorText err))"
  let ?sel = "Db (SelectErrorPattern (err_language err) ?p)"
  let ?first = "\<lparr>ep_id = uuidv4 E (trace w @ [?sel, Uuid]),
                 errorText = err_errorText err, solution = err_solution err,
                 ep_language = err_language err, frequency = 1,
                 lastEncountered = clock E (trace w @ [?sel, Uuid, Clock])\<rparr>"
  let ?w1 = "w\<lparr>trace := trace w @ [?sel, Uuid, Clock, Db (InsertErrorPattern ?first)],
               error_patterns := error_patterns w @ [?first]\<rparr>"
  have one: "recordError E err w = (Inr ?first, ?w1)"
    using recordError_fresh [OF ok none fresh] by (simp add: Let_def)
  have self: "error_where (err_language err) ?p ?first"
    using sql_like_take [of 50 "err_errorText err"] by (simp add: error_where_def)
  have others: "\<forall>r \<in> set (error_patterns w). \<not> error_where (err_language err) ?p r"
    using none by (simp add: find_None_iff)
  have found: "find (error_where (err_language err2) (contains_pattern (take 50 (err_errorText err2))))
                 (error_patterns ?w1) = Some ?first"
    using self find_snoc [OF none, of ?first] again by simp
  note two = recordError_existing [OF ok found]
  have ids: "\<forall>r \<in> set (error_patterns w). ep_id r \<noteq> ep_id ?first"
    using fresh by (auto simp: image_iff)
  have upd: "map (update_error_pattern f t s (ep_id ?first)) (error_patterns ?w1) =
             error_patterns w @ [?first\<lparr>frequency := f, lastEncountered := t, solution := s\<rparr>]"
    for f t s
  proof -
    have "map (update_error_pattern f t s (ep_id ?first)) (error_patterns w) = error_patterns w"
      using ids by (intro map_idI) (simp add: update_error_pattern_def)
    then show ?thesis by (simp add: update_error_pattern_def)
  qed
  let ?t2 = "clock E (trace ?w1 @ [?sel, Clock])"
  let ?w2 = "?w1\<lparr>trace := trace ?w1 @
                 [?sel, Clock, Db (UpdateErrorPattern 2 ?t2 (err_solution err2) (ep_id ?first))],
               error_patterns :=
                 map (update_error_pattern 2 ?t2 (err_solution err2) (ep_id ?first))
                   (error_patterns ?w1)\<rparr>"
  have second: "recordError E err2 ?w1 = (Inr (?first\<lparr>frequency := 2\<rparr>), ?w2)"
    using two again by simp
  have rows: "error_patterns ?w2 =
                error_patterns w @
                  [?first\<lparr>frequency := 2, lastEncountered := ?t2, solution := err_solution err2\<rparr>]"
    using upd [of 2 ?t2 "err_solution err2"] by simp
  have "recordError E err w = (Inr ?first, ?w1) \<and> frequency ?first = 1 \<and>
        error_patterns ?w1 = error_patterns w @ [?first] \<and>
        recordError E err2 ?w1 = (Inr (?first\<lparr>frequency := 2\<rparr>), ?w2) \<and>
        error_patterns ?w2 =
          error_patterns w @
            [?first\<lparr>frequency := 2, lastEncountered := ?t2, solution := err_solution err2\<rparr>]"
    using one second rows by simp
  then show ?thesis by blast
qed

theorem recordError_twice_witness:
  "\<exists>first w1 w2.
     recordError (quiet Rejected) observed_again empty_world = (Inr first, w1) \<and>
     recordError (quiet Rejected) observed_again w1 = (Inr (first\<lparr>frequency := 2\<rparr>), w2) \<and>
     map frequency (error_patterns w2) = [2]"
proof -
  have ok: "\<forall>h. \<not> db_fails (quiet Rejected) h" by (simp add: quiet_def)
  have none: "find (error_where (err_language observed_again)
                 (contains_pattern (take 50 (err_errorText observed_again))))
                 (error_patterns empty_world) = None"
    by (simp add: empty_world_def)
  have fresh: "uuidv4 (quiet Rejected) (trace empty_world @
                  [Db (SelectErrorPattern (err_language observed_again)
                         (contains_pattern (take 50 (err_errorText observed_again)))), Uuid])
                \<notin> set (map ep_id (error_patterns empty_world))"
    by (simp add: empty_world_def)
  from recordError_twice [OF ok none fresh refl refl]
  obtain first w1 w2 where
      one: "recordError (quiet Rejected) observed_again empty_world = (Inr first, w1)"
    and two: "recordError (quiet Rejected) observed_again w1 = (Inr (first\<lparr>frequency := 2\<rparr>), w2)"
    and rows: "error_patterns w2 =
             error_patterns empty_world @
               [first\<lparr>frequency := 2,
                       lastEncountered :=
                         clock (quiet Rejected) (trace w1 @
                           [Db (SelectErrorPattern (err_language observed_again)
                                  (contains_pattern (take 50 (err_errorText observed_again)))),
                            Clock]),
                       solution := err_solution observed_again\<rparr>]"
    by blast
  have freq: "map frequency (error_patterns w2) = [2]"
    using rows by (simp add: empty_world_def)
  show ?thesis
    by (rule exI [of _ first], rule exI [of _ w1], rule exI [of _ w2]) (simp add: one two freq)
qed

text \<open>
  Without a language. A candidate processed with no language, whose request the API
  answers with text that is not blank, gives exactly one pair after exactly one event, the
  API request: the solution cache is neither queried nor written.
\<close>

theorem detectCandidate_without_language:
  assumes reply: "api_reply E (trace w @ [Api (solution_request H errText None)]) = Content (Some s)"
    and nonblank: "trim s \<noteq> []"
  shows "detectCandidate E H None errText foundErrors w =
           (Inr (foundErrors @ [(errText, trim s)]),
            w\<lparr>trace := trace w @ [Api (solution_request H errText None)]\<rparr>)"
  using assms
  by (simp add: detectCandidate_def generateErrorSolution_def create_completion_def
      try_catch_def await_def ret_def emit_def Let_def)

theorem detectCandidate_without_language_witness:
  "detectCandidate (quiet (Content (Some (js ''check the import'')))) helper None
     (js ''error: x is undefined'') [] empty_world =
   (Inr [(js ''error: x is undefined'', js ''check the import'')],
    empty_world\<lparr>trace := [Api (solution_request helper (js ''error: x is undefined'') None)]\<rparr>)"
proof -
  let ?E = "quiet (Content (Some (js ''check the import'')))"
  have reply: "api_reply ?E (trace empty_world @
                 [Api (solution_request helper (js ''error: x is undefined'') None)]) =
               Content (Some (js ''check the import''))"
    by (simp add: quiet_def)
  have t: "trim (js ''check the import'') = js ''check the import''"
    by (simp add: trim_def js_def is_space_def)
  have nonblank: "trim (js ''check the import'') \<noteq> []"
    unfolding t by (simp add: js_def)
  from detectCandidate_without_language [OF reply nonblank, of "[]"]
  show ?thesis unfolding t by (simp add: empty_world_def)
qed

end
